theory Spec2Isabelle
  imports Main
begin

section \<open>JSON-compatible values and Python errors\<close>

text \<open>
  The event payload is a Python \<open>dict\<close> from string keys to JSON-compatible values, and
  \<open>json.loads\<close> returns values of the same shape. A \<open>dict\<close> is an association list
  read with \<open>map_of\<close>; a float is kept as its literal, since no accessor computes with
  numbers.
\<close>

datatype json =
    JNull
  | JBool bool
  | JInt int
  | JFloat string
  | JStr string
  | JArr "json list"
  | JObj "(string \<times> json) list"

type_synonym dict = "(string \<times> json) list"

text \<open>
  The exceptions the accessors can raise: \<open>KeyError\<close> (the missing-key error, with the
  key), \<open>TypeError\<close> (\<open>json.loads\<close> on a value that is not a string),
  \<open>JSONDecodeError\<close> (the malformed-payload error) and \<open>AttributeError\<close>
  (\<open>.keys()\<close> on a decoded value that is not a \<open>dict\<close>).
\<close>

datatype error = KeyError string | TypeError | JSONDecodeError | AttributeError

text \<open>\<open>d.keys()\<close> and \<open>k in d.keys()\<close>.\<close>

definition keys :: "dict \<Rightarrow> string list" where
  "keys d = map fst d"

definition has_key :: "string \<Rightarrow> dict \<Rightarrow> bool" where
  "has_key k d = (k \<in> set (keys d))"

text \<open>
  Modelled from the spec: class \<open>DictWrapper\<close> of
  \<open>aws_lambda_powertools/utilities/data_classes/common.py\<close>, the base class of every
  wrapper below, is not among the sources. The spec describes it as an immutable view over
  a mapping from string keys to JSON-compatible values whose lookups fail with a
  missing-key error on an absent key: \<open>self[key]\<close> is \<open>getitem\<close> on the wrapped
  \<open>dict\<close>, and \<open>dict(self)\<close> is the wrapped \<open>dict\<close> itself.
\<close>

definition getitem :: "dict \<Rightarrow> string \<Rightarrow> error + json" where
  "getitem d k = (case map_of d k of None \<Rightarrow> Inl (KeyError k) | Some v \<Rightarrow> Inr v)"

text \<open>
  \<open>json.loads\<close> belongs to Python's standard library. Its decoding of a string is a
  parameter \<open>loads\<close> of the model (\<open>None\<close> when the string is not valid JSON); what is
  fixed here is that it raises \<open>TypeError\<close> on a payload value that is not a string and
  \<open>JSONDecodeError\<close> on a string it cannot decode.
\<close>

definition json_loads :: "(string \<Rightarrow> json option) \<Rightarrow> json \<Rightarrow> error + json" where
  "json_loads loads v =
     (case v of
        JStr s \<Rightarrow> (case loads s of None \<Rightarrow> Inl JSONDecodeError | Some j \<Rightarrow> Inr j)
      | _ \<Rightarrow> Inl TypeError)"

text \<open>
  What \<open>json.loads\<close> returns on the strings used at the concrete inputs below; every
  other string is left undecoded in this table.
\<close>

definition sample_loads :: "string \<Rightarrow> json option" where
  "sample_loads s =
     (if s = ''{\"configurationItem\": {\"resourceId\": \"i-1\"}, \"configurationItemSummary\": null}''
      then Some (JObj [(''configurationItem'', JObj [(''resourceId'', JStr ''i-1'')]),
                       (''configurationItemSummary'', JNull)])
      else if s = ''{\"configurationItem\": null}''
      then Some (JObj [(''configurationItem'', JNull)])
      else if s = ''{\"configurationItemSummary\": 7, \"messageType\": \"OversizedConfigurationItemChangeNotification\"}''
      then Some (JObj [(''configurationItemSummary'', JInt 7),
                       (''messageType'', JStr ''OversizedConfigurationItemChangeNotification'')])
      else if s = ''{\"messageType\": \"ScheduledNotification\"}''
      then Some (JObj [(''messageType'', JStr ''ScheduledNotification'')])
      else if s = ''{\"desiredInstanceType\": \"t2.micro\"}''
      then Some (JObj [(''desiredInstanceType'', JStr ''t2.micro'')])
      else if s = ''{\"maxCount\": 5}''
      then Some (JObj [(''maxCount'', JInt 5)])
      else if s = ''[]''
      then Some (JArr [])
      else None)"

section \<open>The AWS Config event wrappers\<close>

text \<open>
  The three wrapper classes \<open>invoking_event\<close> chooses between, each holding the decoded
  \<open>dict\<close> it was constructed from.
\<close>

datatype invoking =
    AWSConfigConfigurationChangeEvent dict
  | AWSConfigOversizedConfigurationChangeEvent dict
  | AWSConfigPeriodicInvokingEvent dict

text \<open>The \<open>event\<close> property of each of the three classes.\<close>

fun event :: "invoking \<Rightarrow> error + json" where
  "event (AWSConfigConfigurationChangeEvent d) = getitem d ''configurationItem''"
| "event (AWSConfigOversizedConfigurationChangeEvent d) = getitem d ''configurationItemSummary''"
| "event (AWSConfigPeriodicInvokingEvent d) = Inr (JObj d)"

text \<open>
  The \<open>if\<close>/\<open>elif\<close>/\<open>else\<close> chain of \<open>AWSConfigEvent.invoking_event\<close> on the decoded
  value. \<open>invoking_event.keys()\<close> raises \<open>AttributeError\<close> when the decoded value is
  not a \<open>dict\<close>.
\<close>

definition select_variant :: "json \<Rightarrow> error + invoking" where
  "select_variant j =
     (case j of
        JObj d \<Rightarrow>
          (if has_key ''configurationItem'' d
             then Inr (AWSConfigConfigurationChangeEvent d)
           else if has_key ''configurationItemSummary'' d
             then Inr (AWSConfigOversizedConfigurationChangeEvent d)
           else Inr (AWSConfigPeriodicInvokingEvent d))
      | _ \<Rightarrow> Inl AttributeError)"

definition invoking_event :: "(string \<Rightarrow> json option) \<Rightarrow> dict \<Rightarrow> error + invoking" where
  "invoking_event loads self =
     (case getitem self ''invokingEvent'' of
        Inl e \<Rightarrow> Inl e
      | Inr v \<Rightarrow>
          (case json_loads loads v of
             Inl e \<Rightarrow> Inl e
           | Inr j \<Rightarrow> select_variant j))"

definition rule_parameters :: "(string \<Rightarrow> json option) \<Rightarrow> dict \<Rightarrow> error + json" where
  "rule_parameters loads self =
     (case getitem self ''ruleParameters'' of
        Inl e \<Rightarrow> Inl e
      | Inr v \<Rightarrow> json_loads loads v)"

definition execution_role_arn :: "dict \<Rightarrow> error + json" where
  "execution_role_arn self = getitem self ''executionRoleArn''"

definition config_rule_name :: "dict \<Rightarrow> error + json" where
  "config_rule_name self = getitem self ''configRuleName''"

definition config_rule_id :: "dict \<Rightarrow> error + json" where
  "config_rule_id self = getitem self ''configRuleId''"

definition config_rule_arn :: "dict \<Rightarrow> error + json" where
  "config_rule_arn self = getitem self ''configRuleArn''"

definition account_id :: "dict \<Rightarrow> error + json" where
  "account_id self = getitem self ''accountId''"

definition version :: "dict \<Rightarrow> error + json" where
  "version self = getitem self ''version''"

definition event_left_scope :: "dict \<Rightarrow> error + json" where
  "event_left_scope self = getitem self ''eventLeftScope''"

definition result_token :: "dict \<Rightarrow> error + json" where
  "result_token self = getitem self ''resultToken''"

text \<open>The plain scalar accessors of \<open>AWSConfigEvent\<close>, each with the key it reads.\<close>

definition scalar_accessors :: "((dict \<Rightarrow> error + json) \<times> string) list" where
  "scalar_accessors =
     [(execution_role_arn, ''executionRoleArn''),
      (config_rule_name, ''configRuleName''),
      (config_rule_id, ''configRuleId''),
      (config_rule_arn, ''configRuleArn''),
      (account_id, ''accountId''),
      (version, ''version''),
      (event_left_scope, ''eventLeftScope''),
      (result_token, ''resultToken'')]"

text \<open>Which of the three classes a returned wrapper belongs to.\<close>

datatype variant = ConfigurationChange | OversizedConfigurationChange | Periodic

fun variant_of :: "invoking \<Rightarrow> variant" where
  "variant_of (AWSConfigConfigurationChangeEvent d) = ConfigurationChange"
| "variant_of (AWSConfigOversizedConfigurationChangeEvent d) = OversizedConfigurationChange"
| "variant_of (AWSConfigPeriodicInvokingEvent d) = Periodic"

text \<open>An event payload of the shape AWS Config sends, for the concrete inputs below.\<close>

definition sample_event :: dict where
  "sample_event =
     [(''invokingEvent'', JStr ''{\"configurationItem\": null}''),
      (''ruleParameters'', JStr ''{\"desiredInstanceType\": \"t2.micro\"}''),
      (''resultToken'', JStr ''myResultToken''),
      (''eventLeftScope'', JBool False),
      (''executionRoleArn'', JStr ''arn:aws:iam::123456789012:role/config-role''),
      (''configRuleArn'', JStr ''arn:aws:config:us-east-2:123456789012:config-rule/config-rule-0123456''),
      (''configRuleName'', JStr ''change-triggered-config-rule''),
      (''configRuleId'', JStr ''config-rule-0123456''),
      (''accountId'', JStr ''123456789012''),
      (''version'', JStr ''1.0'')]"

section \<open>Accessor calls with their effects\<close>

text \<open>
  An accessor is a method call on a wrapper object. To speak about what a call does
  besides returning, a call runs in a world: the object the accessor is called on and
  the log of the arguments \<open>json.loads\<close> has been invoked with, oldest first. A call
  returns its result and the world it leaves. The object is its wrapped data and nothing
  else: the spec describes \<open>DictWrapper\<close> as an immutable view over the mapping, and
  no accessor body assigns an attribute.
\<close>

record 's world =
  world_self :: 's
  world_loads :: "json list"

type_synonym ('s, 'r) action = "'s world \<Rightarrow> (error + 'r) \<times> 's world"

definition getitem_run :: "string \<Rightarrow> (dict, json) action" where
  "getitem_run k w = (getitem (world_self w) k, w)"

definition json_loads_run :: "(string \<Rightarrow> json option) \<Rightarrow> json \<Rightarrow> ('s, json) action" where
  "json_loads_run loads v w = (json_loads loads v, w\<lparr>world_loads := world_loads w @ [v]\<rparr>)"

definition invoking_event_run :: "(string \<Rightarrow> json option) \<Rightarrow> (dict, invoking) action" where
  "invoking_event_run loads w =
     (case getitem_run ''invokingEvent'' w of
        (Inl e, w1) \<Rightarrow> (Inl e, w1)
      | (Inr v, w1) \<Rightarrow>
          (case json_loads_run loads v w1 of
             (Inl e, w2) \<Rightarrow> (Inl e, w2)
           | (Inr j, w2) \<Rightarrow> (select_variant j, w2)))"

definition rule_parameters_run :: "(string \<Rightarrow> json option) \<Rightarrow> (dict, json) action" where
  "rule_parameters_run loads w =
     (case getitem_run ''ruleParameters'' w of
        (Inl e, w1) \<Rightarrow> (Inl e, w1)
      | (Inr v, w1) \<Rightarrow> json_loads_run loads v w1)"

definition execution_role_arn_run :: "(dict, json) action" where
  "execution_role_arn_run = getitem_run ''executionRoleArn''"

definition config_rule_name_run :: "(dict, json) action" where
  "config_rule_name_run = getitem_run ''configRuleName''"

definition config_rule_id_run :: "(dict, json) action" where
  "config_rule_id_run = getitem_run ''configRuleId''"

definition config_rule_arn_run :: "(dict, json) action" where
  "config_rule_arn_run = getitem_run ''configRuleArn''"

definition account_id_run :: "(dict, json) action" where
  "account_id_run = getitem_run ''accountId''"

definition version_run :: "(dict, json) action" where
  "version_run = getitem_run ''version''"

definition event_left_scope_run :: "(dict, json) action" where
  "event_left_scope_run = getitem_run ''eventLeftScope''"

definition result_token_run :: "(dict, json) action" where
  "result_token_run = getitem_run ''resultToken''"

text \<open>The \<open>event\<close> property, called on one of the three variant wrappers.\<close>

definition event_run :: "(invoking, json) action" where
  "event_run w = (event (world_self w), w)"

text \<open>Each scalar accessor as a call, with the function it computes.\<close>

definition scalar_accessor_runs :: "((dict, json) action \<times> (dict \<Rightarrow> error + json)) list" where
  "scalar_accessor_runs =
     [(execution_role_arn_run, execution_role_arn),
      (config_rule_name_run, config_rule_name),
      (config_rule_id_run, config_rule_id),
      (config_rule_arn_run, config_rule_arn),
      (account_id_run, account_id),
      (version_run, version),
      (event_left_scope_run, event_left_scope),
      (result_token_run, result_token)]"

text \<open>
  \<open>n\<close> calls of the same accessor in a row, each in the world the previous one left:
  the results in call order, and the final world.
\<close>

fun call_times :: "nat \<Rightarrow> ('w \<Rightarrow> 'r \<times> 'w) \<Rightarrow> 'w \<Rightarrow> 'r list \<times> 'w" where
  "call_times 0 f w = ([], w)"
| "call_times (Suc n) f w =
     (case f w of (r, w1) \<Rightarrow> (case call_times n f w1 of (rs, w2) \<Rightarrow> (r # rs, w2)))"

text \<open>What one call of a JSON-decoding accessor hands to \<open>json.loads\<close>.\<close>

definition decoded_at :: "string \<Rightarrow> dict \<Rightarrow> json list" where
  "decoded_at k d = (case map_of d k of None \<Rightarrow> [] | Some v \<Rightarrow> [v])"

text \<open>A decoded value that is a mapping from strings to strings.\<close>

fun is_str_dict :: "json \<Rightarrow> bool" where
  "is_str_dict (JObj d) = list_all (\<lambda>kv. case snd kv of JStr _ \<Rightarrow> True | _ \<Rightarrow> False) d"
| "is_str_dict _ = False"

section \<open>Logger configuration propagation\<close>

text \<open>
  Modelled from the spec: \<open>copy_config_to_registered_loggers\<close> and the logger classes of
  \<open>aws_lambda_powertools/logging\<close> are not among the sources (only the functional tests
  that call them are), so this section follows the spec's description of the data and of
  the operation, step by step.

  A handler is a sink with a formatter attached; the formatter is an instance reference,
  so two handlers share a formatter when the references are equal. A registered logger has
  a list of handlers, a level and bound keys. The registry maps names to loggers. Loggers
  and handlers are compared by their contents.
\<close>

record handler =
  handler_stream :: string
  handler_formatter :: nat

text \<open>
  Modelled from the spec: a registry entry, with its handlers, its level and its bound
  keys.
\<close>

record logger =
  logger_handlers :: "handler list"
  logger_level :: int
  logger_keys :: "(string \<times> string) list"

text \<open>
  Modelled from the spec: the source logger, which the spec takes as already configured
  with exactly one handler and a formatter; its name, that handler and its level.
\<close>

record source_logger =
  source_name :: string
  source_handler :: handler
  source_level :: int

type_synonym registry = "string \<rightharpoonup> logger"

text \<open>
  Modelled from the spec: candidate selection. All registered loggers are candidates, or
  the intersection of the registry with \<open>include\<close> when it is given.
\<close>

definition candidates :: "registry \<Rightarrow> string set option \<Rightarrow> string set" where
  "candidates reg incl = (case incl of None \<Rightarrow> dom reg | Some inc \<Rightarrow> dom reg \<inter> inc)"

text \<open>Modelled from the spec: from the candidate set, the names in \<open>exclude\<close> are removed.\<close>

definition remove_excluded :: "string set option \<Rightarrow> string set \<Rightarrow> string set" where
  "remove_excluded excl ns = (case excl of None \<Rightarrow> ns | Some exc \<Rightarrow> ns - exc)"

text \<open>
  Modelled from the spec: the source logger's own name and the library's reserved logger
  names are removed unconditionally. The spec does not list the reserved names: they are
  the parameter \<open>reserved\<close>.
\<close>

definition remove_reserved :: "string set \<Rightarrow> source_logger \<Rightarrow> string set \<Rightarrow> string set" where
  "remove_reserved reserved source ns = ns - ({source_name source} \<union> reserved)"

text \<open>Modelled from the spec: the remaining candidates, the targets of the call.\<close>

definition targets ::
  "string set \<Rightarrow> source_logger \<Rightarrow> string set option \<Rightarrow> string set option \<Rightarrow> registry \<Rightarrow> string set" where
  "targets reserved source incl excl reg =
     remove_reserved reserved source (remove_excluded excl (candidates reg incl))"

text \<open>
  Modelled from the spec: a shallow copy of a handler, a handler with the same fields,
  the formatter reference among them.
\<close>

definition shallow_copy :: "handler \<Rightarrow> handler" where
  "shallow_copy h = \<lparr>handler_stream = handler_stream h, handler_formatter = handler_formatter h\<rparr>"

text \<open>
  Modelled from the spec: what is done to each remaining candidate. Its handler list is
  replaced by the single copied handler, and its level is set to \<open>log_level\<close> if
  given, else to the source's.
\<close>

definition configure_logger :: "source_logger \<Rightarrow> int option \<Rightarrow> logger \<Rightarrow> logger" where
  "configure_logger source log_level l =
     l\<lparr>logger_handlers := [shallow_copy (source_handler source)],
       logger_level := (case log_level of None \<Rightarrow> source_level source | Some lv \<Rightarrow> lv)\<rparr>"

text \<open>
  Modelled from the spec: \<open>copy_config_to_registered_loggers\<close>, absent from the
  sources. The operation has no return value and no error; its effect is the registry it
  leaves, in which every target is reconfigured and every other entry is as before.
\<close>

definition copy_config_to_registered_loggers ::
  "string set \<Rightarrow> source_logger \<Rightarrow> string set option \<Rightarrow> string set option \<Rightarrow> int option \<Rightarrow>
   registry \<Rightarrow> registry" where
  "copy_config_to_registered_loggers reserved source incl excl log_level reg =
     (\<lambda>n. if n \<in> targets reserved source incl excl reg
          then map_option (configure_logger source log_level) (reg n)
          else reg n)"

text \<open>
  The registry of the functional tests: two external loggers without handlers at level
  0, the source logger itself and the library's own logger, with one external logger that
  already has a handler.
\<close>

definition sample_handler :: handler where
  "sample_handler = \<lparr>handler_stream = ''stdout'', handler_formatter = 1\<rparr>"

definition sample_source :: source_logger where
  "sample_source = \<lparr>source_name = ''service'', source_handler = sample_handler, source_level = 50\<rparr>"

definition sample_registry :: registry where
  "sample_registry =
     [''logger_1'' \<mapsto> \<lparr>logger_handlers = [], logger_level = 0, logger_keys = []\<rparr>,
      ''logger_2'' \<mapsto> \<lparr>logger_handlers = [\<lparr>handler_stream = ''null'', handler_formatter = 0\<rparr>],
                       logger_level = 0, logger_keys = []\<rparr>,
      ''service'' \<mapsto> \<lparr>logger_handlers = [sample_handler], logger_level = 50,
                      logger_keys = [(''service'', ''service'')]\<rparr>,
      ''aws_lambda_powertools'' \<mapsto> \<lparr>logger_handlers = [], logger_level = 0, logger_keys = []\<rparr>]"

section \<open>Basic facts\<close>

lemma has_key_map_of: "has_key k d \<longleftrightarrow> map_of d k \<noteq> None"
  by (simp add: has_key_def keys_def map_of_eq_None_iff)

lemma invoking_event_decoded:
  assumes "map_of self ''invokingEvent'' = Some (JStr s)" and "loads s = Some j"
  shows "invoking_event loads self = select_variant j"
  using assms by (simp add: invoking_event_def getitem_def json_loads_def)

section \<open>Variant selection\<close>

text \<open>
  Claim C1. For every payload whose \<open>invokingEvent\<close> string decodes to a mapping,
  \<open>invoking_event\<close> wraps the mapping in the first matching variant, testing
  \<open>configurationItem\<close> first, \<open>configurationItemSummary\<close> second and falling back to
  the periodic variant: \<open>configurationItem\<close> present gives the configuration-change
  variant whether or not \<open>configurationItemSummary\<close> is present too,
  \<open>configurationItemSummary\<close> without \<open>configurationItem\<close> gives the oversized variant,
  and neither key gives the periodic variant.
\<close>

theorem invoking_event_first_match:
  assumes "map_of self ''invokingEvent'' = Some (JStr s)"
    and "loads s = Some (JObj d)"
  shows "invoking_event loads self =
           (if ''configurationItem'' \<in> set (keys d)
              then Inr (AWSConfigConfigurationChangeEvent d)
            else if ''configurationItemSummary'' \<in> set (keys d)
              then Inr (AWSConfigOversizedConfigurationChangeEvent d)
            else Inr (AWSConfigPeriodicInvokingEvent d))"
  using assms by (simp add: invoking_event_decoded select_variant_def has_key_def)

theorem invoking_event_first_match_witness:
  "invoking_event sample_loads
     [(''invokingEvent'',
       JStr ''{\"configurationItem\": {\"resourceId\": \"i-1\"}, \"configurationItemSummary\": null}'')]
   = Inr (AWSConfigConfigurationChangeEvent
            [(''configurationItem'', JObj [(''resourceId'', JStr ''i-1'')]),
             (''configurationItemSummary'', JNull)])
   \<and> invoking_event sample_loads
     [(''invokingEvent'',
       JStr ''{\"configurationItemSummary\": 7, \"messageType\": \"OversizedConfigurationItemChangeNotification\"}'')]
   = Inr (AWSConfigOversizedConfigurationChangeEvent
            [(''configurationItemSummary'', JInt 7),
             (''messageType'', JStr ''OversizedConfigurationItemChangeNotification'')])
   \<and> invoking_event sample_loads
     [(''invokingEvent'', JStr ''{\"messageType\": \"ScheduledNotification\"}'')]
   = Inr (AWSConfigPeriodicInvokingEvent [(''messageType'', JStr ''ScheduledNotification'')])"
proof -
  let ?s1 = "''{\"configurationItem\": {\"resourceId\": \"i-1\"}, \"configurationItemSummary\": null}''"
  let ?d1 = "[(''configurationItem'', JObj [(''resourceId'', JStr ''i-1'')]),
              (''configurationItemSummary'', JNull)]"
  let ?s2 = "''{\"configurationItemSummary\": 7, \"messageType\": \"OversizedConfigurationItemChangeNotification\"}''"
  let ?d2 = "[(''configurationItemSummary'', JInt 7),
              (''messageType'', JStr ''OversizedConfigurationItemChangeNotification'')]"
  let ?s3 = "''{\"messageType\": \"ScheduledNotification\"}''"
  let ?d3 = "[(''messageType'', JStr ''ScheduledNotification'')]"
  have p1: "map_of [(''invokingEvent'', JStr ?s1)] ''invokingEvent'' = Some (JStr ?s1)"
    and p2: "map_of [(''invokingEvent'', JStr ?s2)] ''invokingEvent'' = Some (JStr ?s2)"
    and p3: "map_of [(''invokingEvent'', JStr ?s3)] ''invokingEvent'' = Some (JStr ?s3)"
    by simp_all
  have l1: "sample_loads ?s1 = Some (JObj ?d1)" by (simp add: sample_loads_def)
  have l2: "sample_loads ?s2 = Some (JObj ?d2)" by (simp add: sample_loads_def)
  have l3: "sample_loads ?s3 = Some (JObj ?d3)" by (simp add: sample_loads_def)
  show ?thesis
    using invoking_event_first_match [where loads = sample_loads, OF p1 l1]
      invoking_event_first_match [where loads = sample_loads, OF p2 l2]
      invoking_event_first_match [where loads = sample_loads, OF p3 l3]
    by (simp add: keys_def)
qed

text \<open>
  Claim C2. The \<open>event\<close> property of the configuration-change variant returns the value
  stored at key \<open>configurationItem\<close>, that of the oversized variant the value stored at
  key \<open>configurationItemSummary\<close>, and that of the periodic variant the entire decoded
  mapping; on the two non-periodic variants it fails with a missing-key error when the
  key is absent. On the wrapper \<open>invoking_event\<close> returns, \<open>event\<close> therefore gives
  the nested value of the key that selected the variant, or the whole mapping.
\<close>

theorem event_of_variant:
  "(\<forall>v. map_of d ''configurationItem'' = Some v \<longrightarrow>
       event (AWSConfigConfigurationChangeEvent d) = Inr v)
   \<and> (map_of d ''configurationItem'' = None \<longrightarrow>
       event (AWSConfigConfigurationChangeEvent d) = Inl (KeyError ''configurationItem''))
   \<and> (\<forall>v. map_of d ''configurationItemSummary'' = Some v \<longrightarrow>
       event (AWSConfigOversizedConfigurationChangeEvent d) = Inr v)
   \<and> (map_of d ''configurationItemSummary'' = None \<longrightarrow>
       event (AWSConfigOversizedConfigurationChangeEvent d) =
         Inl (KeyError ''configurationItemSummary''))
   \<and> event (AWSConfigPeriodicInvokingEvent d) = Inr (JObj d)
   \<and> (\<forall>loads self s.
         map_of self ''invokingEvent'' = Some (JStr s) \<and> loads s = Some (JObj d) \<longrightarrow>
         (\<exists>x. invoking_event loads self = Inr x \<and>
              event x =
                (case map_of d ''configurationItem'' of
                   Some v \<Rightarrow> Inr v
                 | None \<Rightarrow>
                     (case map_of d ''configurationItemSummary'' of
                        Some v \<Rightarrow> Inr v
                      | None \<Rightarrow> Inr (JObj d)))))"
proof -
  have "\<exists>x. invoking_event loads self = Inr x \<and>
          event x =
            (case map_of d ''configurationItem'' of
               Some v \<Rightarrow> Inr v
             | None \<Rightarrow>
                 (case map_of d ''configurationItemSummary'' of
                    Some v \<Rightarrow> Inr v
                  | None \<Rightarrow> Inr (JObj d)))"
    if "map_of self ''invokingEvent'' = Some (JStr s)" and "loads s = Some (JObj d)"
    for loads self s
    using that
    by (auto simp: invoking_event_decoded select_variant_def has_key_map_of getitem_def
        split: option.splits)
  then show ?thesis
    by (simp add: getitem_def)
qed

theorem event_of_variant_witness:
  "event (AWSConfigConfigurationChangeEvent
            [(''configurationItem'', JObj [(''resourceId'', JStr ''i-1'')]),
             (''configurationItemSummary'', JNull)])
     = Inr (JObj [(''resourceId'', JStr ''i-1'')])
   \<and> event (AWSConfigOversizedConfigurationChangeEvent
            [(''configurationItem'', JObj [(''resourceId'', JStr ''i-1'')]),
             (''configurationItemSummary'', JNull)])
     = Inr JNull
   \<and> event (AWSConfigPeriodicInvokingEvent [(''messageType'', JStr ''ScheduledNotification'')])
     = Inr (JObj [(''messageType'', JStr ''ScheduledNotification'')])
   \<and> event (AWSConfigConfigurationChangeEvent [(''messageType'', JStr ''ScheduledNotification'')])
     = Inl (KeyError ''configurationItem'')
   \<and> event (AWSConfigOversizedConfigurationChangeEvent
              [(''messageType'', JStr ''ScheduledNotification'')])
     = Inl (KeyError ''configurationItemSummary'')"
  using event_of_variant [of "[(''configurationItem'', JObj [(''resourceId'', JStr ''i-1'')]),
                               (''configurationItemSummary'', JNull)]"]
    event_of_variant [of "[(''messageType'', JStr ''ScheduledNotification'')]"]
  by simp

section \<open>Failures of the accessors\<close>

lemma scalar_accessors_getitem:
  "(acc, k) \<in> set scalar_accessors \<Longrightarrow> acc self = getitem self k"
  by (auto simp: scalar_accessors_def execution_role_arn_def config_rule_name_def
      config_rule_id_def config_rule_arn_def account_id_def version_def
      event_left_scope_def result_token_def)

lemma json_loads_decode_error_iff:
  "json_loads loads v = Inl JSONDecodeError \<longleftrightarrow> (\<exists>s. v = JStr s \<and> loads s = None)"
  by (cases v) (auto simp: json_loads_def split: option.splits)

lemma select_variant_not_decode_error: "select_variant j \<noteq> Inl JSONDecodeError"
  by (cases j) (auto simp: select_variant_def)

lemma invoking_event_decode_error_iff:
  "invoking_event loads self = Inl JSONDecodeError \<longleftrightarrow>
     (\<exists>s. map_of self ''invokingEvent'' = Some (JStr s) \<and> loads s = None)"
proof (cases "map_of self ''invokingEvent''")
  case None
  then show ?thesis by (simp add: invoking_event_def getitem_def)
next
  case (Some v)
  show ?thesis
  proof (cases "json_loads loads v")
    case (Inl e)
    with Some show ?thesis
      using json_loads_decode_error_iff [of loads v]
      by (auto simp: invoking_event_def getitem_def)
  next
    case (Inr j)
    with Some show ?thesis
      using json_loads_decode_error_iff [of loads v] select_variant_not_decode_error [of j]
      by (auto simp: invoking_event_def getitem_def)
  qed
qed

lemma rule_parameters_decode_error_iff:
  "rule_parameters loads self = Inl JSONDecodeError \<longleftrightarrow>
     (\<exists>s. map_of self ''ruleParameters'' = Some (JStr s) \<and> loads s = None)"
  using json_loads_decode_error_iff [of loads]
  by (cases "map_of self ''ruleParameters''") (auto simp: rule_parameters_def getitem_def)

text \<open>
  Claim C6. Each plain scalar accessor (\<open>execution_role_arn\<close>, \<open>config_rule_name\<close>,
  \<open>config_rule_id\<close>, \<open>config_rule_arn\<close>, \<open>account_id\<close>, \<open>version\<close>,
  \<open>event_left_scope\<close>, \<open>result_token\<close>) fails exactly when its key is absent from the
  payload, the failure being the missing-key error for that key, and otherwise returns
  the stored value as it is. \<open>invoking_event\<close> and \<open>rule_parameters\<close> fail with the
  malformed-payload error exactly when their key holds a string that is not valid JSON.
\<close>

theorem accessor_errors:
  "((acc, k) \<in> set scalar_accessors \<longrightarrow>
      (isl (acc self) \<longleftrightarrow> map_of self k = None) \<and>
      (map_of self k = None \<longrightarrow> acc self = Inl (KeyError k)) \<and>
      (\<forall>v. map_of self k = Some v \<longrightarrow> acc self = Inr v))
   \<and> (invoking_event loads self = Inl JSONDecodeError \<longleftrightarrow>
        (\<exists>s. map_of self ''invokingEvent'' = Some (JStr s) \<and> loads s = None))
   \<and> (rule_parameters loads self = Inl JSONDecodeError \<longleftrightarrow>
        (\<exists>s. map_of self ''ruleParameters'' = Some (JStr s) \<and> loads s = None))"
  using invoking_event_decode_error_iff [of loads self]
    rule_parameters_decode_error_iff [of loads self]
  by (auto simp: scalar_accessors_getitem getitem_def split: option.splits)

theorem accessor_errors_witness:
  "(config_rule_name, ''configRuleName'') \<in> set scalar_accessors
   \<and> config_rule_name sample_event = Inr (JStr ''change-triggered-config-rule'')
   \<and> (event_left_scope, ''eventLeftScope'') \<in> set scalar_accessors
   \<and> event_left_scope sample_event = Inr (JBool False)
   \<and> (result_token, ''resultToken'') \<in> set scalar_accessors
   \<and> result_token [(''version'', JStr ''1.0'')] = Inl (KeyError ''resultToken'')
   \<and> invoking_event sample_loads [(''invokingEvent'', JStr ''{'')] = Inl JSONDecodeError
   \<and> rule_parameters sample_loads [(''ruleParameters'', JStr ''{'')] = Inl JSONDecodeError"
proof -
  have m: "(config_rule_name, ''configRuleName'') \<in> set scalar_accessors"
    "(event_left_scope, ''eventLeftScope'') \<in> set scalar_accessors"
    "(result_token, ''resultToken'') \<in> set scalar_accessors"
    by (simp_all add: scalar_accessors_def)
  have k: "map_of sample_event ''configRuleName'' = Some (JStr ''change-triggered-config-rule'')"
    "map_of sample_event ''eventLeftScope'' = Some (JBool False)"
    "map_of [(''version'', JStr ''1.0'')] ''resultToken'' = None"
    by (simp_all add: sample_event_def)
  have l: "sample_loads ''{'' = None"
    by (simp add: sample_loads_def)
  show ?thesis
    using m k l
      accessor_errors [of config_rule_name "''configRuleName''" sample_event sample_loads]
      accessor_errors [of event_left_scope "''eventLeftScope''" sample_event sample_loads]
      accessor_errors [of result_token "''resultToken''" "[(''version'', JStr ''1.0'')]" sample_loads]
      accessor_errors [of result_token "''resultToken''" "[(''invokingEvent'', JStr ''{'')]" sample_loads]
      accessor_errors [of result_token "''resultToken''" "[(''ruleParameters'', JStr ''{'')]" sample_loads]
    by simp
qed

section \<open>Totality of the selection\<close>

text \<open>
  Claim C7, as the code has it. For every payload whose \<open>invokingEvent\<close> value is a
  string that parses as a JSON object, the call returns exactly one of the three
  variants, wrapping the decoded mapping, and the periodic variant is returned exactly
  when neither key is present; no failure occurs. A string that parses as JSON of
  another kind (an array, a number, a string, \<open>null\<close>) is outside this: \<open>.keys()\<close>
  fails on the decoded value.
\<close>

theorem invoking_event_total_on_objects:
  assumes "map_of self ''invokingEvent'' = Some (JStr s)" and "loads s = Some (JObj d)"
  shows "(invoking_event loads self = Inr (AWSConfigConfigurationChangeEvent d) \<or>
          invoking_event loads self = Inr (AWSConfigOversizedConfigurationChangeEvent d) \<or>
          invoking_event loads self = Inr (AWSConfigPeriodicInvokingEvent d))
       \<and> (\<exists>x. invoking_event loads self = Inr x \<and>
              (variant_of x = Periodic \<longleftrightarrow>
                 \<not> has_key ''configurationItem'' d \<and> \<not> has_key ''configurationItemSummary'' d))"
  using assms by (simp add: invoking_event_decoded select_variant_def)

theorem invoking_event_total_on_objects_witness:
  "(invoking_event sample_loads sample_event =
      Inr (AWSConfigConfigurationChangeEvent [(''configurationItem'', JNull)]) \<or>
    invoking_event sample_loads sample_event =
      Inr (AWSConfigOversizedConfigurationChangeEvent [(''configurationItem'', JNull)]) \<or>
    invoking_event sample_loads sample_event =
      Inr (AWSConfigPeriodicInvokingEvent [(''configurationItem'', JNull)]))
   \<and> (\<exists>x. invoking_event sample_loads sample_event = Inr x \<and> variant_of x \<noteq> Periodic)"
proof -
  have p: "map_of sample_event ''invokingEvent'' = Some (JStr ''{\"configurationItem\": null}'')"
    by (simp add: sample_event_def)
  have l: "sample_loads ''{\"configurationItem\": null}'' = Some (JObj [(''configurationItem'', JNull)])"
    by (simp add: sample_loads_def)
  show ?thesis
    using invoking_event_total_on_objects [where loads = sample_loads, OF p l]
    by (auto simp: has_key_def keys_def)
qed

text \<open>
  The claim as stated fails: \<open>[]\<close> is a string that parses as JSON, and on a payload
  carrying it \<open>invoking_event\<close> raises \<open>AttributeError\<close> instead of returning a variant.
\<close>

theorem invoking_event_array_counterexample:
  "map_of [(''invokingEvent'', JStr ''[]'')] ''invokingEvent'' = Some (JStr ''[]'')
   \<and> sample_loads ''[]'' = Some (JArr [])
   \<and> invoking_event sample_loads [(''invokingEvent'', JStr ''[]'')] = Inl AttributeError"
  by (simp add: invoking_event_def getitem_def json_loads_def sample_loads_def select_variant_def)

section \<open>Rule parameters\<close>

text \<open>
  Claim C8, as the code has it. For every payload whose \<open>ruleParameters\<close> value is a
  valid JSON string, \<open>rule_parameters\<close> returns the decoded value unchanged; the result
  is a mapping from strings to strings exactly when the decoded value is a JSON object
  whose values are all strings, since the accessor neither converts nor checks it.
\<close>

theorem rule_parameters_decoded:
  assumes "map_of self ''ruleParameters'' = Some (JStr s)" and "loads s = Some j"
  shows "rule_parameters loads self = Inr j
       \<and> (\<exists>r. rule_parameters loads self = Inr r \<and>
              (is_str_dict r \<longleftrightarrow> (\<exists>d. j = JObj d \<and> list_all (\<lambda>kv. \<exists>t. snd kv = JStr t) d)))"
proof -
  have "(case x of JStr _ \<Rightarrow> True | _ \<Rightarrow> False) \<longleftrightarrow> (\<exists>t. x = JStr t)" for x
    by (cases x) auto
  then have "is_str_dict j \<longleftrightarrow> (\<exists>d. j = JObj d \<and> list_all (\<lambda>kv. \<exists>t. snd kv = JStr t) d)"
    by (cases j) simp_all
  with assms show ?thesis
    by (simp add: rule_parameters_def getitem_def json_loads_def)
qed

theorem rule_parameters_decoded_witness:
  "rule_parameters sample_loads sample_event = Inr (JObj [(''desiredInstanceType'', JStr ''t2.micro'')])"
proof -
  have p: "map_of sample_event ''ruleParameters'' = Some (JStr ''{\"desiredInstanceType\": \"t2.micro\"}'')"
    by (simp add: sample_event_def)
  have l: "sample_loads ''{\"desiredInstanceType\": \"t2.micro\"}'' =
             Some (JObj [(''desiredInstanceType'', JStr ''t2.micro'')])"
    by (simp add: sample_loads_def)
  show ?thesis
    using rule_parameters_decoded [where loads = sample_loads, OF p l]
    by simp
qed

text \<open>
  The claim as stated fails: the valid JSON string \<open>{"maxCount": 5}\<close> decodes to a
  mapping with an integer value, and the valid JSON string \<open>[]\<close> to a list;
  \<open>rule_parameters\<close> returns each as it is.
\<close>

theorem rule_parameters_int_counterexample:
  "map_of [(''ruleParameters'', JStr ''{\"maxCount\": 5}'')] ''ruleParameters'' =
     Some (JStr ''{\"maxCount\": 5}'')
   \<and> sample_loads ''{\"maxCount\": 5}'' = Some (JObj [(''maxCount'', JInt 5)])
   \<and> rule_parameters sample_loads [(''ruleParameters'', JStr ''{\"maxCount\": 5}'')] =
       Inr (JObj [(''maxCount'', JInt 5)])
   \<and> \<not> is_str_dict (JObj [(''maxCount'', JInt 5)])
   \<and> sample_loads ''[]'' = Some (JArr [])
   \<and> rule_parameters sample_loads [(''ruleParameters'', JStr ''[]'')] = Inr (JArr [])
   \<and> \<not> is_str_dict (JArr [])"
  by (simp add: rule_parameters_def getitem_def json_loads_def sample_loads_def)

section \<open>Discrimination by key presence\<close>

text \<open>
  Claim C10, as the code has it. Which variant \<open>invoking_event\<close> selects depends only
  on whether the keys \<open>configurationItem\<close> and \<open>configurationItemSummary\<close> are
  present in the decoded mapping, never on the values under them: a mapping that has
  \<open>configurationItem\<close>, whatever it maps to (\<open>null\<close> and non-mappings included),
  gives the configuration-change variant; one that has \<open>configurationItemSummary\<close>,
  whatever it maps to, and does not have \<open>configurationItem\<close> gives the oversized
  variant; and two decoded mappings in which the same of the two keys are present give
  the same variant.
\<close>

theorem variant_by_key_presence:
  assumes "map_of self ''invokingEvent'' = Some (JStr s)" and "loads s = Some (JObj d)"
  shows "(\<forall>v. map_of d ''configurationItem'' = Some v \<longrightarrow>
            invoking_event loads self = Inr (AWSConfigConfigurationChangeEvent d))
    \<and> (\<forall>v. map_of d ''configurationItem'' = None \<and>
            map_of d ''configurationItemSummary'' = Some v \<longrightarrow>
            invoking_event loads self = Inr (AWSConfigOversizedConfigurationChangeEvent d))
    \<and> (\<forall>self' s' d'.
          map_of self' ''invokingEvent'' = Some (JStr s') \<and> loads s' = Some (JObj d')
          \<and> (has_key ''configurationItem'' d' \<longleftrightarrow> has_key ''configurationItem'' d)
          \<and> (has_key ''configurationItemSummary'' d' \<longleftrightarrow> has_key ''configurationItemSummary'' d)
          \<longrightarrow> map_sum id variant_of (invoking_event loads self') =
              map_sum id variant_of (invoking_event loads self))"
  using assms by (auto simp: invoking_event_decoded select_variant_def has_key_map_of)

theorem variant_by_key_presence_witness:
  "invoking_event sample_loads [(''invokingEvent'', JStr ''{\"configurationItem\": null}'')] =
     Inr (AWSConfigConfigurationChangeEvent [(''configurationItem'', JNull)])
   \<and> invoking_event sample_loads
       [(''invokingEvent'',
         JStr ''{\"configurationItemSummary\": 7, \"messageType\": \"OversizedConfigurationItemChangeNotification\"}'')] =
     Inr (AWSConfigOversizedConfigurationChangeEvent
            [(''configurationItemSummary'', JInt 7),
             (''messageType'', JStr ''OversizedConfigurationItemChangeNotification'')])
   \<and> map_sum id variant_of
       (invoking_event sample_loads
          [(''invokingEvent'',
            JStr ''{\"configurationItem\": {\"resourceId\": \"i-1\"}, \"configurationItemSummary\": null}'')]) =
     Inr ConfigurationChange"
proof -
  let ?s1 = "''{\"configurationItem\": null}''"
  let ?d1 = "[(''configurationItem'', JNull)]"
  let ?s2 = "''{\"configurationItemSummary\": 7, \"messageType\": \"OversizedConfigurationItemChangeNotification\"}''"
  let ?d2 = "[(''configurationItemSummary'', JInt 7),
              (''messageType'', JStr ''OversizedConfigurationItemChangeNotification'')]"
  let ?s3 = "''{\"configurationItem\": {\"resourceId\": \"i-1\"}, \"configurationItemSummary\": null}''"
  let ?d3 = "[(''configurationItem'', JObj [(''resourceId'', JStr ''i-1'')]),
              (''configurationItemSummary'', JNull)]"
  have p1: "map_of [(''invokingEvent'', JStr ?s1)] ''invokingEvent'' = Some (JStr ?s1)"
    and p2: "map_of [(''invokingEvent'', JStr ?s2)] ''invokingEvent'' = Some (JStr ?s2)"
    and p3: "map_of [(''invokingEvent'', JStr ?s3)] ''invokingEvent'' = Some (JStr ?s3)"
    by simp_all
  have l1: "sample_loads ?s1 = Some (JObj ?d1)" by (simp add: sample_loads_def)
  have l2: "sample_loads ?s2 = Some (JObj ?d2)" by (simp add: sample_loads_def)
  have l3: "sample_loads ?s3 = Some (JObj ?d3)" by (simp add: sample_loads_def)
  have a: "invoking_event sample_loads [(''invokingEvent'', JStr ?s1)] =
             Inr (AWSConfigConfigurationChangeEvent ?d1)"
    using variant_by_key_presence [where loads = sample_loads, OF p1 l1] by simp
  have b: "invoking_event sample_loads [(''invokingEvent'', JStr ?s2)] =
             Inr (AWSConfigOversizedConfigurationChangeEvent ?d2)"
    using variant_by_key_presence [where loads = sample_loads, OF p2 l2] by simp
  have c: "invoking_event sample_loads [(''invokingEvent'', JStr ?s3)] =
             Inr (AWSConfigConfigurationChangeEvent ?d3)"
    using variant_by_key_presence [where loads = sample_loads, OF p3 l3] by simp
  show ?thesis
    using a b c by simp
qed

text \<open>
  The claim as stated fails in its second half: a decoded mapping that contains
  \<open>configurationItemSummary\<close> and \<open>configurationItem\<close> as well gets the
  configuration-change variant, not the oversized one, since \<open>configurationItem\<close> is
  tested first.
\<close>

theorem variant_by_key_presence_counterexample:
  "map_of [(''invokingEvent'',
            JStr ''{\"configurationItem\": {\"resourceId\": \"i-1\"}, \"configurationItemSummary\": null}'')]
      ''invokingEvent'' =
     Some (JStr ''{\"configurationItem\": {\"resourceId\": \"i-1\"}, \"configurationItemSummary\": null}'')
   \<and> sample_loads
       ''{\"configurationItem\": {\"resourceId\": \"i-1\"}, \"configurationItemSummary\": null}'' =
     Some (JObj [(''configurationItem'', JObj [(''resourceId'', JStr ''i-1'')]),
                 (''configurationItemSummary'', JNull)])
   \<and> has_key ''configurationItemSummary''
       [(''configurationItem'', JObj [(''resourceId'', JStr ''i-1'')]),
        (''configurationItemSummary'', JNull)]
   \<and> invoking_event sample_loads
       [(''invokingEvent'',
         JStr ''{\"configurationItem\": {\"resourceId\": \"i-1\"}, \"configurationItemSummary\": null}'')] =
     Inr (AWSConfigConfigurationChangeEvent
            [(''configurationItem'', JObj [(''resourceId'', JStr ''i-1'')]),
             (''configurationItemSummary'', JNull)])
   \<and> invoking_event sample_loads
       [(''invokingEvent'',
         JStr ''{\"configurationItem\": {\"resourceId\": \"i-1\"}, \"configurationItemSummary\": null}'')] \<noteq>
     Inr (AWSConfigOversizedConfigurationChangeEvent
            [(''configurationItem'', JObj [(''resourceId'', JStr ''i-1'')]),
             (''configurationItemSummary'', JNull)])"
  by (simp add: invoking_event_def getitem_def json_loads_def sample_loads_def select_variant_def
      has_key_def keys_def)

section \<open>Accessors as pure functions of the payload\<close>

lemma call_times_reader:
  assumes "\<And>w. f w = (g (world_self w), w\<lparr>world_loads := world_loads w @ h (world_self w)\<rparr>)"
  shows "call_times n f w =
           (replicate n (g (world_self w)),
            w\<lparr>world_loads := world_loads w @ concat (replicate n (h (world_self w)))\<rparr>)"
proof (induction n arbitrary: w)
  case 0
  show ?case by simp
next
  case (Suc n)
  have "f w = (g (world_self w), w\<lparr>world_loads := world_loads w @ h (world_self w)\<rparr>)"
    by (rule assms)
  then show ?case
    by (simp add: Suc.IH)
qed

lemma invoking_event_run_eq:
  "invoking_event_run loads w =
     (invoking_event loads (world_self w),
      w\<lparr>world_loads := world_loads w @ decoded_at ''invokingEvent'' (world_self w)\<rparr>)"
  by (simp add: invoking_event_run_def invoking_event_def getitem_run_def json_loads_run_def
      decoded_at_def getitem_def split: option.splits sum.splits)

lemma rule_parameters_run_eq:
  "rule_parameters_run loads w =
     (rule_parameters loads (world_self w),
      w\<lparr>world_loads := world_loads w @ decoded_at ''ruleParameters'' (world_self w)\<rparr>)"
  by (simp add: rule_parameters_run_def rule_parameters_def getitem_run_def json_loads_run_def
      decoded_at_def getitem_def split: option.splits sum.splits)

lemma scalar_accessor_runs_eq:
  "(run, acc) \<in> set scalar_accessor_runs \<Longrightarrow> run w = (acc (world_self w), w)"
  by (auto simp: scalar_accessor_runs_def getitem_run_def
      execution_role_arn_run_def config_rule_name_run_def config_rule_id_run_def
      config_rule_arn_run_def account_id_run_def version_run_def event_left_scope_run_def
      result_token_run_def
      execution_role_arn_def config_rule_name_def config_rule_id_def config_rule_arn_def
      account_id_def version_def event_left_scope_def result_token_def)

lemma call_times_pure:
  assumes "\<And>w. f w = (g (world_self w), w)"
  shows "call_times n f w = (replicate n (g (world_self w)), w)"
  using call_times_reader [of f g "\<lambda>_. []" n w] assms by simp

text \<open>
  Claim C9. \<open>invoking_event\<close> and every other accessor is a deterministic pure
  function of the payload: \<open>n\<close> calls in a row on the same object return \<open>n\<close> equal
  results, each the value the accessor computes from the payload; they leave the
  payload as it was; and nothing is cached, since each call of \<open>invoking_event\<close> or
  \<open>rule_parameters\<close> that finds its key hands the stored value to \<open>json.loads\<close>
  again, so \<open>n\<close> calls decode \<open>n\<close> times. The scalar accessors and \<open>event\<close> leave
  the world untouched.
\<close>

theorem accessors_deterministic:
  "call_times n (invoking_event_run loads) w =
     (replicate n (invoking_event loads (world_self w)),
      w\<lparr>world_loads :=
          world_loads w @ concat (replicate n (decoded_at ''invokingEvent'' (world_self w)))\<rparr>)
   \<and> call_times n (rule_parameters_run loads) w =
     (replicate n (rule_parameters loads (world_self w)),
      w\<lparr>world_loads :=
          world_loads w @ concat (replicate n (decoded_at ''ruleParameters'' (world_self w)))\<rparr>)
   \<and> ((run, acc) \<in> set scalar_accessor_runs \<longrightarrow>
        call_times n run w = (replicate n (acc (world_self w)), w))
   \<and> call_times n event_run v = (replicate n (event (world_self v)), v)"
proof -
  have a: "call_times n (invoking_event_run loads) w =
     (replicate n (invoking_event loads (world_self w)),
      w\<lparr>world_loads :=
          world_loads w @ concat (replicate n (decoded_at ''invokingEvent'' (world_self w)))\<rparr>)"
    by (rule call_times_reader) (rule invoking_event_run_eq)
  have b: "call_times n (rule_parameters_run loads) w =
     (replicate n (rule_parameters loads (world_self w)),
      w\<lparr>world_loads :=
          world_loads w @ concat (replicate n (decoded_at ''ruleParameters'' (world_self w)))\<rparr>)"
    by (rule call_times_reader) (rule rule_parameters_run_eq)
  have c: "(run, acc) \<in> set scalar_accessor_runs \<longrightarrow>
        call_times n run w = (replicate n (acc (world_self w)), w)"
  proof
    assume m: "(run, acc) \<in> set scalar_accessor_runs"
    show "call_times n run w = (replicate n (acc (world_self w)), w)"
      by (rule call_times_pure) (rule scalar_accessor_runs_eq [OF m])
  qed
  have d: "call_times n event_run v = (replicate n (event (world_self v)), v)"
    by (rule call_times_pure) (simp add: event_run_def)
  from a b c d show ?thesis
    by (intro conjI)
qed

theorem accessors_deterministic_witness:
  "call_times 2 (invoking_event_run sample_loads) \<lparr>world_self = sample_event, world_loads = []\<rparr> =
     ([Inr (AWSConfigConfigurationChangeEvent [(''configurationItem'', JNull)]),
       Inr (AWSConfigConfigurationChangeEvent [(''configurationItem'', JNull)])],
      \<lparr>world_self = sample_event,
       world_loads = [JStr ''{\"configurationItem\": null}'', JStr ''{\"configurationItem\": null}'']\<rparr>)
   \<and> (version_run, version) \<in> set scalar_accessor_runs
   \<and> call_times 2 version_run \<lparr>world_self = sample_event, world_loads = []\<rparr> =
     ([Inr (JStr ''1.0''), Inr (JStr ''1.0'')], \<lparr>world_self = sample_event, world_loads = []\<rparr>)"
proof -
  have m: "(version_run, version) \<in> set scalar_accessor_runs"
    by (simp add: scalar_accessor_runs_def)
  have i: "invoking_event sample_loads sample_event =
             Inr (AWSConfigConfigurationChangeEvent [(''configurationItem'', JNull)])"
    by (simp add: invoking_event_def getitem_def json_loads_def sample_loads_def sample_event_def
        select_variant_def has_key_def keys_def)
  have k: "decoded_at ''invokingEvent'' sample_event = [JStr ''{\"configurationItem\": null}'']"
    by (simp add: decoded_at_def sample_event_def)
  have v: "version sample_event = Inr (JStr ''1.0'')"
    by (simp add: version_def getitem_def sample_event_def)
  show ?thesis
    using m i k v
      accessors_deterministic [of 2 sample_loads "\<lparr>world_self = sample_event, world_loads = []\<rparr>"
        version_run version]
    by (simp add: numeral_2_eq_2)
qed

section \<open>Propagation of the logger configuration\<close>

lemma targets_iff:
  "n \<in> targets reserved source incl excl reg \<longleftrightarrow>
     n \<in> dom reg
     \<and> (case incl of None \<Rightarrow> True | Some inc \<Rightarrow> n \<in> inc)
     \<and> (case excl of None \<Rightarrow> True | Some exc \<Rightarrow> n \<notin> exc)
     \<and> n \<noteq> source_name source \<and> n \<notin> reserved"
  by (auto simp: targets_def remove_reserved_def remove_excluded_def candidates_def
      split: option.splits)

lemma targets_registered: "n \<in> targets reserved source incl excl reg \<Longrightarrow> \<exists>l. reg n = Some l"
  by (auto simp: targets_iff)

lemma copy_config_at_target:
  assumes "n \<in> targets reserved source incl excl reg" and "reg n = Some l"
  shows "copy_config_to_registered_loggers reserved source incl excl log_level reg n =
           Some (configure_logger source log_level l)"
  using assms by (simp add: copy_config_to_registered_loggers_def)

lemma copy_config_elsewhere:
  "n \<notin> targets reserved source incl excl reg \<Longrightarrow>
     copy_config_to_registered_loggers reserved source incl excl log_level reg n = reg n"
  by (simp add: copy_config_to_registered_loggers_def)

lemma dom_copy_config:
  "dom (copy_config_to_registered_loggers reserved source incl excl log_level reg) = dom reg"
  by (auto simp: copy_config_to_registered_loggers_def dom_def split: if_splits)

lemma targets_copy_config:
  "targets reserved source incl excl
     (copy_config_to_registered_loggers reserved source incl' excl' log_level reg) =
   targets reserved source incl excl reg"
  by (simp add: targets_def candidates_def dom_copy_config cong: option.case_cong)

lemma configure_logger_idem:
  "configure_logger source log_level (configure_logger source log_level l) =
   configure_logger source log_level l"
  by (simp add: configure_logger_def)

text \<open>
  Claim C3. For every target logger selected by \<open>copy_config_to_registered_loggers\<close>,
  after the call the target has exactly one handler, a shallow copy of the source's
  handler with the source's formatter instance, whatever handlers it had before; its
  level is the \<open>log_level\<close> argument when one is given and the source's level
  otherwise; its bound keys are kept.
\<close>

theorem copy_config_target:
  assumes "n \<in> targets reserved source incl excl reg"
  shows "\<exists>l l'. reg n = Some l
      \<and> copy_config_to_registered_loggers reserved source incl excl log_level reg n = Some l'
      \<and> logger_handlers l' = [shallow_copy (source_handler source)]
      \<and> length (logger_handlers l') = 1
      \<and> handler_formatter (shallow_copy (source_handler source)) =
          handler_formatter (source_handler source)
      \<and> handler_stream (shallow_copy (source_handler source)) =
          handler_stream (source_handler source)
      \<and> logger_level l' = (case log_level of None \<Rightarrow> source_level source | Some lv \<Rightarrow> lv)
      \<and> logger_keys l' = logger_keys l"
proof -
  from assms obtain l where l: "reg n = Some l"
    using targets_registered by blast
  let ?l' = "configure_logger source log_level l"
  have "copy_config_to_registered_loggers reserved source incl excl log_level reg n = Some ?l'"
    using assms l by (rule copy_config_at_target)
  moreover have "logger_handlers ?l' = [shallow_copy (source_handler source)]"
    and "logger_level ?l' = (case log_level of None \<Rightarrow> source_level source | Some lv \<Rightarrow> lv)"
    and "logger_keys ?l' = logger_keys l"
    by (simp_all add: configure_logger_def)
  ultimately show ?thesis
    using l by (simp add: shallow_copy_def)
qed

theorem copy_config_target_witness:
  "''logger_2'' \<in> targets {''aws_lambda_powertools''} sample_source None None sample_registry
   \<and> (\<exists>l'. copy_config_to_registered_loggers {''aws_lambda_powertools''} sample_source None None
               (Some 30) sample_registry ''logger_2'' = Some l'
            \<and> logger_handlers l' = [sample_handler] \<and> logger_level l' = 30)
   \<and> (\<exists>l'. copy_config_to_registered_loggers {''aws_lambda_powertools''} sample_source None None
               None sample_registry ''logger_2'' = Some l'
            \<and> logger_handlers l' = [sample_handler] \<and> logger_level l' = 50)"
proof -
  have t: "''logger_2'' \<in> targets {''aws_lambda_powertools''} sample_source None None sample_registry"
    by (simp add: targets_iff sample_registry_def sample_source_def)
  show ?thesis
    using t
      copy_config_target [OF t, of "Some 30"]
      copy_config_target [OF t, of None]
    by (auto simp: shallow_copy_def sample_source_def)
qed

text \<open>
  Claim C4. The targets are the registered loggers, intersected with \<open>include\<close> when it
  is given, minus the names in \<open>exclude\<close>, minus the source logger's own name and the
  reserved names. A logger that is not a target is left as it is: so is one named in
  both \<open>include\<close> and \<open>exclude\<close>, the source, and a reserved logger. A name in
  \<open>include\<close> that matches no registered logger is ignored: the operation has no error,
  registers no logger, and changes nothing when \<open>include\<close> names no registered logger.
\<close>

theorem target_selection:
  "(n \<in> targets reserved source incl excl reg \<longleftrightarrow>
      n \<in> dom reg
      \<and> (case incl of None \<Rightarrow> True | Some inc \<Rightarrow> n \<in> inc)
      \<and> (case excl of None \<Rightarrow> True | Some exc \<Rightarrow> n \<notin> exc)
      \<and> n \<noteq> source_name source \<and> n \<notin> reserved)
   \<and> (n \<notin> targets reserved source incl excl reg \<longrightarrow>
        copy_config_to_registered_loggers reserved source incl excl log_level reg n = reg n)
   \<and> (\<forall>inc exc. incl = Some inc \<and> excl = Some exc \<and> n \<in> inc \<and> n \<in> exc \<longrightarrow>
        copy_config_to_registered_loggers reserved source incl excl log_level reg n = reg n)
   \<and> (n = source_name source \<or> n \<in> reserved \<longrightarrow>
        copy_config_to_registered_loggers reserved source incl excl log_level reg n = reg n)
   \<and> dom (copy_config_to_registered_loggers reserved source incl excl log_level reg) = dom reg
   \<and> (n \<notin> dom reg \<longrightarrow>
        copy_config_to_registered_loggers reserved source incl excl log_level reg n = None)
   \<and> (\<forall>inc. incl = Some inc \<and> inc \<inter> dom reg = {} \<longrightarrow>
        copy_config_to_registered_loggers reserved source incl excl log_level reg = reg)"
proof -
  let ?copy = "copy_config_to_registered_loggers reserved source incl excl log_level"
  have a: "n \<in> targets reserved source incl excl reg \<longleftrightarrow>
      n \<in> dom reg
      \<and> (case incl of None \<Rightarrow> True | Some inc \<Rightarrow> n \<in> inc)
      \<and> (case excl of None \<Rightarrow> True | Some exc \<Rightarrow> n \<notin> exc)
      \<and> n \<noteq> source_name source \<and> n \<notin> reserved"
    by (rule targets_iff)
  have b: "n \<notin> targets reserved source incl excl reg \<longrightarrow> ?copy reg n = reg n"
    by (simp add: copy_config_elsewhere)
  have c: "\<forall>inc exc. incl = Some inc \<and> excl = Some exc \<and> n \<in> inc \<and> n \<in> exc \<longrightarrow>
             ?copy reg n = reg n"
  proof (intro allI impI)
    fix inc exc
    assume "incl = Some inc \<and> excl = Some exc \<and> n \<in> inc \<and> n \<in> exc"
    then have "n \<notin> targets reserved source incl excl reg"
      by (simp add: targets_iff)
    then show "?copy reg n = reg n"
      by (rule copy_config_elsewhere)
  qed
  have d: "n = source_name source \<or> n \<in> reserved \<longrightarrow> ?copy reg n = reg n"
  proof
    assume "n = source_name source \<or> n \<in> reserved"
    then have "n \<notin> targets reserved source incl excl reg"
      by (auto simp: targets_iff)
    then show "?copy reg n = reg n"
      by (rule copy_config_elsewhere)
  qed
  have e: "dom (?copy reg) = dom reg"
    by (rule dom_copy_config)
  have g: "n \<notin> dom reg \<longrightarrow> ?copy reg n = None"
  proof
    assume u: "n \<notin> dom reg"
    then have "n \<notin> targets reserved source incl excl reg"
      by (simp add: targets_iff)
    then have "?copy reg n = reg n"
      by (rule copy_config_elsewhere)
    with u show "?copy reg n = None"
      by (simp add: domIff)
  qed
  have f: "\<forall>inc. incl = Some inc \<and> inc \<inter> dom reg = {} \<longrightarrow> ?copy reg = reg"
  proof (intro allI impI)
    fix inc
    assume h: "incl = Some inc \<and> inc \<inter> dom reg = {}"
    show "?copy reg = reg"
    proof
      fix m
      have "m \<notin> targets reserved source incl excl reg"
        using h by (auto simp: targets_iff)
      then show "?copy reg m = reg m"
        by (rule copy_config_elsewhere)
    qed
  qed
  from a b c d e g f show ?thesis
    by (intro conjI)
qed

theorem target_selection_witness:
  "''logger_2'' \<in> targets {''aws_lambda_powertools''} sample_source
      (Some {''logger_1'', ''logger_2'', ''non-existing-logger''}) (Some {''logger_1''}) sample_registry
   \<and> ''logger_1'' \<notin> targets {''aws_lambda_powertools''} sample_source
      (Some {''logger_1'', ''logger_2'', ''non-existing-logger''}) (Some {''logger_1''}) sample_registry
   \<and> copy_config_to_registered_loggers {''aws_lambda_powertools''} sample_source
      (Some {''logger_1'', ''logger_2'', ''non-existing-logger''}) (Some {''logger_1''}) None
      sample_registry ''logger_1'' = sample_registry ''logger_1''
   \<and> copy_config_to_registered_loggers {''aws_lambda_powertools''} sample_source
      (Some {''logger_1'', ''logger_2'', ''non-existing-logger''}) (Some {''logger_1''}) None
      sample_registry ''non-existing-logger'' = None
   \<and> copy_config_to_registered_loggers {''aws_lambda_powertools''} sample_source
      (Some {''non-existing-logger''}) None None sample_registry = sample_registry"
proof -
  let ?inc = "{''logger_1'', ''logger_2'', ''non-existing-logger''}"
  have d: "dom sample_registry = {''logger_1'', ''logger_2'', ''service'', ''aws_lambda_powertools''}"
    by (auto simp: sample_registry_def)
  have e: "{''non-existing-logger''} \<inter> dom sample_registry = {}"
    by (simp add: d)
  have g: "sample_registry ''non-existing-logger'' = None"
    by (simp add: sample_registry_def)
  have n: "source_name sample_source = ''service''"
    by (simp add: sample_source_def)
  have 1: "''logger_2'' \<in> targets {''aws_lambda_powertools''} sample_source
             (Some ?inc) (Some {''logger_1''}) sample_registry"
    using target_selection [of "''logger_2''" "{''aws_lambda_powertools''}" sample_source
        "Some ?inc" "Some {''logger_1''}" sample_registry None]
    by (simp add: d n)
  have 2: "''logger_1'' \<notin> targets {''aws_lambda_powertools''} sample_source
             (Some ?inc) (Some {''logger_1''}) sample_registry
           \<and> copy_config_to_registered_loggers {''aws_lambda_powertools''} sample_source
               (Some ?inc) (Some {''logger_1''}) None sample_registry ''logger_1'' =
             sample_registry ''logger_1''"
    using target_selection [of "''logger_1''" "{''aws_lambda_powertools''}" sample_source
        "Some ?inc" "Some {''logger_1''}" sample_registry None]
    by (simp add: d n)
  have 3: "copy_config_to_registered_loggers {''aws_lambda_powertools''} sample_source
             (Some ?inc) (Some {''logger_1''}) None sample_registry ''non-existing-logger'' = None"
    using target_selection [of "''non-existing-logger''" "{''aws_lambda_powertools''}" sample_source
        "Some ?inc" "Some {''logger_1''}" sample_registry None]
    by (simp add: d n g)
  have 4: "copy_config_to_registered_loggers {''aws_lambda_powertools''} sample_source
             (Some {''non-existing-logger''}) None None sample_registry = sample_registry"
    using target_selection [of "''x''" "{''aws_lambda_powertools''}" sample_source
        "Some {''non-existing-logger''}" None sample_registry None] e
    by simp
  from 1 2 3 4 show ?thesis
    by simp
qed

text \<open>
  Claim C5. \<open>copy_config_to_registered_loggers\<close> is idempotent: a second call with the
  same arguments leaves the registry the first call left. The second call selects the
  same targets, the source's own entry is never touched (so the source is the same
  argument at the second call), and each target has exactly one handler after the
  second call.
\<close>

theorem copy_config_idempotent:
  "copy_config_to_registered_loggers reserved source incl excl log_level
     (copy_config_to_registered_loggers reserved source incl excl log_level reg) =
   copy_config_to_registered_loggers reserved source incl excl log_level reg
   \<and> targets reserved source incl excl
       (copy_config_to_registered_loggers reserved source incl excl log_level reg) =
     targets reserved source incl excl reg
   \<and> copy_config_to_registered_loggers reserved source incl excl log_level reg (source_name source) =
       reg (source_name source)
   \<and> (n \<in> targets reserved source incl excl reg \<longrightarrow>
        (\<exists>l. copy_config_to_registered_loggers reserved source incl excl log_level
               (copy_config_to_registered_loggers reserved source incl excl log_level reg) n = Some l
             \<and> logger_handlers l = [shallow_copy (source_handler source)]
             \<and> length (logger_handlers l) = 1))"
proof -
  let ?copy = "copy_config_to_registered_loggers reserved source incl excl log_level"
  have t: "targets reserved source incl excl (?copy reg) = targets reserved source incl excl reg"
    by (rule targets_copy_config)
  have idem: "?copy (?copy reg) = ?copy reg"
  proof
    fix m
    show "?copy (?copy reg) m = ?copy reg m"
    proof (cases "m \<in> targets reserved source incl excl reg")
      case True
      then obtain l where l: "reg m = Some l"
        using targets_registered by blast
      have 1: "?copy reg m = Some (configure_logger source log_level l)"
        using True l by (rule copy_config_at_target)
      have "m \<in> targets reserved source incl excl (?copy reg)"
        using True t by simp
      then have "?copy (?copy reg) m =
                   Some (configure_logger source log_level (configure_logger source log_level l))"
        using 1 by (rule copy_config_at_target)
      then show ?thesis
        using 1 by (simp add: configure_logger_idem)
    next
      case False
      then have "m \<notin> targets reserved source incl excl (?copy reg)"
        using t by simp
      then have "?copy (?copy reg) m = ?copy reg m"
        by (rule copy_config_elsewhere)
      then show ?thesis .
    qed
  qed
  have src: "?copy reg (source_name source) = reg (source_name source)"
    by (rule copy_config_elsewhere) (simp add: targets_iff)
  have one: "\<exists>l. ?copy (?copy reg) n = Some l
               \<and> logger_handlers l = [shallow_copy (source_handler source)]
               \<and> length (logger_handlers l) = 1"
    if "n \<in> targets reserved source incl excl reg"
  proof -
    from that obtain l where l: "reg n = Some l"
      using targets_registered by blast
    have "?copy reg n = Some (configure_logger source log_level l)"
      using that l by (rule copy_config_at_target)
    then show ?thesis
      using idem by (simp add: configure_logger_def)
  qed
  show ?thesis
    using idem t src one by simp
qed

theorem copy_config_idempotent_witness:
  "copy_config_to_registered_loggers {''aws_lambda_powertools''} sample_source None None (Some 30)
     (copy_config_to_registered_loggers {''aws_lambda_powertools''} sample_source None None (Some 30)
        sample_registry) =
   copy_config_to_registered_loggers {''aws_lambda_powertools''} sample_source None None (Some 30)
     sample_registry
   \<and> ''logger_2'' \<in> targets {''aws_lambda_powertools''} sample_source None None sample_registry
   \<and> (\<exists>l. copy_config_to_registered_loggers {''aws_lambda_powertools''} sample_source None None (Some 30)
        (copy_config_to_registered_loggers {''aws_lambda_powertools''} sample_source None None (Some 30)
           sample_registry) ''logger_2'' = Some l
         \<and> logger_handlers l = [sample_handler])"
proof -
  have t: "''logger_2'' \<in> targets {''aws_lambda_powertools''} sample_source None None sample_registry"
    by (simp add: targets_iff sample_registry_def sample_source_def)
  show ?thesis
    using t
      copy_config_idempotent [of "{''aws_lambda_powertools''}" sample_source None None "Some 30"
        sample_registry "''logger_2''"]
    by (auto simp: shallow_copy_def sample_source_def)
qed

end
